theory Spec2Isabelle
  imports Complex_Main
begin

section \<open>Python values seen by the validators\<close>

text \<open>
  The input checks of \<^verbatim>\<open>src/diffupy/validate_inputs.py\<close> look at a value only through
  \<^verbatim>\<open>is None\<close>, \<^verbatim>\<open>isinstance(_, float)\<close>, \<^verbatim>\<open>isinstance(_, int)\<close>, \<^verbatim>\<open>==\<close> and \<^verbatim>\<open>in\<close>.
  A cell of a matrix is therefore modelled by the class these tests observe. An array of
  dtype \<^verbatim>\<open>object\<close> holds Python objects: \<^verbatim>\<open>None\<close>, a \<^verbatim>\<open>str\<close>, an \<^verbatim>\<open>int\<close> or a \<^verbatim>\<open>float\<close>.
  An array of a numeric dtype yields numpy scalars:
  \<^item> \<^verbatim>\<open>numpy.float64\<close> is a subclass of \<^verbatim>\<open>float\<close>, so a cell of a \<^verbatim>\<open>float64\<close> array is
    \<open>PFloat\<close>;
  \<^item> a numpy integer scalar (\<^verbatim>\<open>numpy.int64\<close>, \<^verbatim>\<open>numpy.int32\<close>, ...) is an instance of
    neither \<^verbatim>\<open>int\<close> nor \<^verbatim>\<open>float\<close>: \<open>NpInt\<close>;
  \<^item> a numpy floating scalar of another width (\<^verbatim>\<open>numpy.float32\<close>, \<^verbatim>\<open>numpy.float16\<close>) is
    an instance of neither: \<open>NpFloat\<close>.
  A float is a finite number (kept as a real: rounding is not modelled) or one of the
  three IEEE special values.
\<close>

datatype pyfloat = Finite real | NaN | PosInf | NegInf

datatype pyval =
    PNone | PStr string | PInt int | PFloat pyfloat | NpInt int | NpFloat pyfloat

text \<open>
  The two exception classes the module raises. A raise is the left summand of the result,
  returning \<^verbatim>\<open>None\<close> at the end of the function body is \<open>Inr ()\<close>.
\<close>

datatype exn = ValueError string | Warning string

text \<open>A row or column label: \<^verbatim>\<open>None\<close> or a string.\<close>

type_synonym label = "string option"

definition isinstance_float :: "pyval \<Rightarrow> bool" where
  "isinstance_float v = (case v of PFloat _ \<Rightarrow> True | _ \<Rightarrow> False)"

definition isinstance_int :: "pyval \<Rightarrow> bool" where
  "isinstance_int v = (case v of PInt _ \<Rightarrow> True | _ \<Rightarrow> False)"

text \<open>
  \<^verbatim>\<open>score is ['NA', 'Nan', 'nan']\<close> compares the identity of \<^verbatim>\<open>score\<close> with a list object
  built by the expression itself; no value that existed before is that object.
\<close>

definition is_fresh_list :: "pyval \<Rightarrow> string list \<Rightarrow> bool" where
  "is_fresh_list v l = False"

text \<open>\<^verbatim>\<open>x in ['Nan', None]\<close> on a value and on a label: \<^verbatim>\<open>x == 'Nan' or x == None\<close>.\<close>

definition val_in_Nan_None :: "pyval \<Rightarrow> bool" where
  "val_in_Nan_None v = (v = PStr ''Nan'' \<or> v = PNone)"

definition label_in_Nan_None :: "label \<Rightarrow> bool" where
  "label_in_Nan_None l = (l = Some ''Nan'' \<or> l = None)"

text \<open>
  \<^verbatim>\<open>x == 0\<close>: true of an integer 0 and of the floats 0.0 and -0.0, Python's or numpy's,
  false of every other value.
\<close>

definition py_eq_zero :: "pyval \<Rightarrow> bool" where
  "py_eq_zero v =
     (case v of
        PInt i \<Rightarrow> i = 0
      | NpInt i \<Rightarrow> i = 0
      | PFloat (Finite r) \<Rightarrow> r = 0
      | NpFloat (Finite r) \<Rightarrow> r = 0
      | _ \<Rightarrow> False)"

text \<open>\<^verbatim>\<open>str(label)\<close>.\<close>

definition label_str :: "label \<Rightarrow> string" where
  "label_str l = (case l of None \<Rightarrow> ''None'' | Some s \<Rightarrow> s)"

text \<open>\<^verbatim>\<open>str(n)\<close> of a non-negative int: its decimal digits.\<close>

fun str_nat :: "nat \<Rightarrow> string" where
  "str_nat n =
     (if n < 10 then [''0123456789'' ! n]
      else str_nat (n div 10) @ [''0123456789'' ! (n mod 10)])"

declare str_nat.simps [simp del]

text \<open>Truthiness of a string, and \<^verbatim>\<open>s in d\<close> on strings (substring test).\<close>

definition str_truthy :: "string \<Rightarrow> bool" where
  "str_truthy s = (s \<noteq> [])"

fun str_in :: "string \<Rightarrow> string \<Rightarrow> bool" where
  "str_in s [] = (s = [])"
| "str_in s (c # cs) = (take (length s) (c # cs) = s \<or> str_in s cs)"

text \<open>
  \<^verbatim>\<open>any(xs)\<close> is a bool. The module then applies \<^verbatim>\<open>is None\<close> and \<^verbatim>\<open>< 0\<close> to that bool:
  a bool is never \<^verbatim>\<open>None\<close>, and in a comparison it counts as the int 0 or 1.
\<close>

definition py_any :: "bool list \<Rightarrow> bool" where
  "py_any bs = list_ex (\<lambda>b. b) bs"

definition bool_is_None :: "bool \<Rightarrow> bool" where
  "bool_is_None b = False"

definition bool_lt_zero :: "bool \<Rightarrow> bool" where
  "bool_lt_zero b = ((if b then 1 else 0) < (0::int))"

text \<open>
  The body of a \<^verbatim>\<open>for\<close> loop whose only effect is to raise: the first element that raises
  ends the loop.
\<close>

fun for_each :: "('a \<Rightarrow> exn + unit) \<Rightarrow> 'a list \<Rightarrow> exn + unit" where
  "for_each f [] = Inr ()"
| "for_each f (x # xs) = (case f x of Inl e \<Rightarrow> Inl e | Inr _ \<Rightarrow> for_each f xs)"

section \<open>The labelled matrix\<close>

text \<open>
  \<^verbatim>\<open>diffupy.matrix.Matrix\<close> is imported by the module. The validators read three
  attributes: \<^verbatim>\<open>mat\<close> (a two-dimensional numpy array, of which they use \<^verbatim>\<open>dtype\<close>, \<^verbatim>\<open>shape\<close>
  and the cells), \<^verbatim>\<open>rows_labels\<close> and \<^verbatim>\<open>cols_labels\<close>. An array is rectangular:
  \<open>cells\<close> has \<^verbatim>\<open>shape[0]\<close> rows of \<open>ncols\<close> = \<^verbatim>\<open>shape[1]\<close> entries each.
\<close>

record ndarray =
  dtype :: string
  ncols :: nat
  cells :: "pyval list list"

record matrix =
  mat :: ndarray
  rows_labels :: "label list"
  cols_labels :: "label list"

definition shape0 :: "ndarray \<Rightarrow> nat" where
  "shape0 a = length (cells a)"

definition shape1 :: "ndarray \<Rightarrow> nat" where
  "shape1 a = ncols a"

text \<open>
  Modelled from the spec: \<^verbatim>\<open>Matrix.__iter__\<close>, whose code is not part of the module. The
  spec gives it as an iteration that yields the triples (value, column label, row label)
  and covers every cell exactly once, and leaves the order open; here the cells are taken
  row by row. Label sequences have the length of their dimension.
\<close>

definition iter_matrix :: "matrix \<Rightarrow> (pyval \<times> label \<times> label) list" where
  "iter_matrix m =
     concat (map (\<lambda>(row, rl). map (\<lambda>(v, cl). (v, cl, rl)) (zip row (cols_labels m)))
                 (zip (cells (mat m)) (rows_labels m)))"

text \<open>
  \<^verbatim>\<open>not 'float' and 'int' in str(m.mat.dtype)\<close>, the condition of the dtype test of both
  matrix validators. Python reads it as \<^verbatim>\<open>(not 'float') and ('int' in str(dtype))\<close>.
\<close>

definition dtype_test :: "string \<Rightarrow> bool" where
  "dtype_test d = ((\<not> str_truthy ''float'') \<and> str_in ''int'' d)"

section \<open>Standard deviation\<close>

text \<open>
  \<^verbatim>\<open>np.std(a, axis=0)\<close> is a library function; the scores validator takes it as a
  parameter \<open>std\<close>, from an array to one float per column. \<open>np_std\<close> is the population
  standard deviation in exact arithmetic with the IEEE rules for special values: a column
  with no entry, or with an entry that is not a finite number, has the deviation NaN.
  It stands for the library on arrays of a numeric dtype.
\<close>

fun finite_reals :: "pyval list \<Rightarrow> real list option" where
  "finite_reals [] = Some []"
| "finite_reals (PInt i # vs) = map_option ((#) (of_int i)) (finite_reals vs)"
| "finite_reals (NpInt i # vs) = map_option ((#) (of_int i)) (finite_reals vs)"
| "finite_reals (PFloat (Finite r) # vs) = map_option ((#) r) (finite_reals vs)"
| "finite_reals (NpFloat (Finite r) # vs) = map_option ((#) r) (finite_reals vs)"
| "finite_reals (_ # vs) = None"

definition mean :: "real list \<Rightarrow> real" where
  "mean rs = sum_list rs / real (length rs)"

definition std_col :: "pyval list \<Rightarrow> pyfloat" where
  "std_col vs =
     (case finite_reals vs of
        None \<Rightarrow> NaN
      | Some rs \<Rightarrow>
          if rs = [] then NaN
          else Finite (sqrt (mean (map (\<lambda>r. (r - mean rs)\<^sup>2) rs))))"

definition np_std :: "ndarray \<Rightarrow> pyfloat list" where
  "np_std a = map (\<lambda>j. std_col (map (\<lambda>row. row ! j) (cells a))) [0..<ncols a]"

section \<open>The validators\<close>

subsection \<open>\<^verbatim>\<open>_validate_scores\<close>\<close>

definition check_score :: "pyval \<times> label \<times> label \<Rightarrow> exn + unit" where
  "check_score t =
     (case t of (score, col_label, row_label) \<Rightarrow>
        if score = PNone then Inl (ValueError ''Scores input cannot contain None.'')
        else if is_fresh_list score [''NA'', ''Nan'', ''nan'']
          then Inl (ValueError ''Scores input cannot contain NA values.'')
        else if \<not> isinstance_float score \<and> \<not> isinstance_int score
          then Inl (ValueError ''The scores in background are not numeric.'')
        else if label_in_Nan_None col_label
          then Inl (ValueError
            ''The scores in background must have row names according to the scored nodes.'')
        else if label_in_Nan_None row_label
          then Inl (ValueError
            ''The scores in background must have col names to differentiate score sets.'')
        else Inr ())"

definition check_sd :: "pyval \<times> label \<times> label \<Rightarrow> exn + unit" where
  "check_sd t =
     (case t of (sd, col_label, row_label) \<Rightarrow>
        if val_in_Nan_None sd
          then Inl (ValueError
            (''Standard deviation in background is NA in column:'' @ label_str col_label))
        else if py_eq_zero sd
          then Inl (ValueError
            (''Standard deviation in background is 0 in column:'' @ label_str col_label))
        else Inr ())"

text \<open>Lines 22 to 45: the label test, the dtype test and the loop over the cells.\<close>

definition scores_cells_ok :: "matrix \<Rightarrow> exn + unit" where
  "scores_cells_ok scores =
     (if cols_labels scores = []
        then Inl (ValueError
          ''Scores must be a named list but supplied list contains no names.'')
      else if rows_labels scores = []
        then Inl (ValueError
          ''Scores must be a named list but supplied list contains no names.'')
      else if dtype_test (dtype (mat scores))
        then Inl (ValueError ''The scores in background are not numeric.'')
      else for_each check_score (iter_matrix scores))"

text \<open>Line 47: \<^verbatim>\<open>Matrix(np.std(scores.mat, axis=0), ['sd'], scores.cols_labels)\<close>.\<close>

definition std_matrix :: "(ndarray \<Rightarrow> pyfloat list) \<Rightarrow> matrix \<Rightarrow> matrix" where
  "std_matrix std scores =
     \<lparr>mat = \<lparr>dtype = ''float64'', ncols = length (std (mat scores)),
             cells = [map PFloat (std (mat scores))]\<rparr>,
      rows_labels = [Some ''sd''],
      cols_labels = cols_labels scores\<rparr>"

definition validate_scores :: "(ndarray \<Rightarrow> pyfloat list) \<Rightarrow> matrix \<Rightarrow> exn + unit" where
  "validate_scores std scores =
     (case scores_cells_ok scores of
        Inl e \<Rightarrow> Inl e
      | Inr _ \<Rightarrow>
          (let std_mat = std_matrix std scores
           in for_each check_sd (iter_matrix std_mat)))"

subsection \<open>\<^verbatim>\<open>_validate_K\<close>\<close>

text \<open>The argument of the kernel validator: a \<^verbatim>\<open>Matrix\<close>, or a value of another class.\<close>

datatype kernel_arg = KMatrix matrix | KOther pyval

definition check_K_cell :: "pyval \<times> label \<times> label \<Rightarrow> exn + unit" where
  "check_K_cell t =
     (case t of (score, col_label, row_label) \<Rightarrow>
        if \<not> isinstance_float score \<and> \<not> isinstance_int score
          then Inl (ValueError '''k' must be a numeric matrix, but it is not numeric.'')
        else if val_in_Nan_None score
          then Inl (ValueError ''Scores input cannot contain NA. But background .'')
        else if label_in_Nan_None col_label \<or> label_in_Nan_None row_label
          then Inl (ValueError '''k' dimnames cannot be NA.'')
        else Inr ())"

text \<open>
  \<^verbatim>\<open>np.unique(labels)\<close>: the distinct entries (numpy returns them sorted; only their number
  is used).
\<close>

definition np_unique :: "'a list \<Rightarrow> 'a list" where
  "np_unique xs = remdups xs"

definition validate_K_matrix :: "matrix \<Rightarrow> exn + unit" where
  "validate_K_matrix k =
     (if dtype_test (dtype (mat k))
        then Inl (ValueError '''k' must be a numeric matrix, but it is not numeric.'')
      else
        (let n_rows = shape0 (mat k); n_cols = shape1 (mat k) in
         if n_rows \<noteq> n_cols
           then Inl (ValueError
             ('''k' must be a square matrix, but it has '' @ str_nat n_rows
              @ '' rows and '' @ str_nat n_cols @ '' columns.''))
         else if cols_labels k = []
           then Inl (ValueError '''k' kernel must have row names.'')
         else if rows_labels k = []
           then Inl (ValueError '''k' kernel must have column names.'')
         else if rows_labels k \<noteq> cols_labels k
           then Inl (ValueError '''k' rownames and colnames must coincide.'')
         else
           (case for_each check_K_cell (iter_matrix k) of
              Inl e \<Rightarrow> Inl e
            | Inr _ \<Rightarrow>
                if length (np_unique (rows_labels k)) \<noteq> length (rows_labels k)
                  then Inl (ValueError '''k' cannot contain duplicated row names.'')
                else if length (np_unique (cols_labels k)) \<noteq> length (cols_labels k)
                  then Inl (ValueError '''k' cannot contain duplicated column names.'')
                else Inr ())))"

definition validate_K :: "kernel_arg \<Rightarrow> exn + unit" where
  "validate_K k =
     (case k of
        KOther v \<Rightarrow> Inl (ValueError '''k' must be a matrix'')
      | KMatrix m \<Rightarrow> validate_K_matrix m)"

subsection \<open>\<^verbatim>\<open>_validate_graph\<close>\<close>

text \<open>
  A networkx graph as the validator reads it: whether it is directed, its nodes in their
  stored order, each with its \<^verbatim>\<open>name\<close> attribute (a string), and its edges, each with its
  \<^verbatim>\<open>weight\<close> attribute where it has one.
\<close>

record graph =
  directed :: bool
  nodes :: "(nat \<times> string) list"
  edges :: "((nat \<times> nat) \<times> pyval option) list"

datatype graph_arg = GGraph graph | GOther pyval

text \<open>
  Modelled from the spec: \<^verbatim>\<open>get_label_list_graph(graph, 'name')\<close> of
  \<^verbatim>\<open>diffupy.miscellaneous\<close>, whose code is not part of the module: the ordered sequence of
  the attribute's values, one per node, in a stable node order.
\<close>

definition get_label_list_graph :: "graph \<Rightarrow> string list" where
  "get_label_list_graph g = map snd (nodes g)"

text \<open>
  \<^verbatim>\<open>nx.get_edge_attributes(graph, 'weight')\<close>: the dict from the edges that carry the
  attribute to its value, as the list of its items.
\<close>

definition get_edge_attributes :: "graph \<Rightarrow> ((nat \<times> nat) \<times> pyval) list" where
  "get_edge_attributes g =
     List.map_filter (\<lambda>(e, w). map_option (\<lambda>v. (e, v)) w) (edges g)"

text \<open>
  \<^verbatim>\<open>x in [None, 'NA', 'Nan']\<close> on a value, and on a list object: a list equals neither
  \<^verbatim>\<open>None\<close> nor a string.
\<close>

definition val_in_None_NA_Nan :: "pyval \<Rightarrow> bool" where
  "val_in_None_NA_Nan v = (v = PNone \<or> v = PStr ''NA'' \<or> v = PStr ''Nan'')"

definition list_in_None_NA_Nan :: "string list \<Rightarrow> bool" where
  "list_in_None_NA_Nan l = False"

text \<open>
  \<^verbatim>\<open>any(edge_weights)\<close> iterates over the keys of the dict, the edges; a key is a tuple of
  two nodes, and a tuple with entries is truthy.
\<close>

definition edge_truthy :: "nat \<times> nat \<Rightarrow> bool" where
  "edge_truthy e = True"

definition validate_graph_graph :: "graph \<Rightarrow> exn + unit" where
  "validate_graph_graph g =
     (let nodes_names = get_label_list_graph g in
      if list_in_None_NA_Nan nodes_names
        then Inl (ValueError '''graph' must have node names.'')
      else if bool_is_None (py_any (map str_truthy nodes_names))
        then Inl (ValueError '''graph' cannot have NA as node names'')
      else if length (np_unique nodes_names) \<noteq> length nodes_names
        then Inl (ValueError
          '''graph' has non-unique names! Please check that the names are unique.'')
      else if directed g
        then Inl (Warning ''graph' should be an undirected NetworkX graph object.'')
      else
        (let edge_weights = get_edge_attributes g in
         if edge_weights \<noteq> [] then
           (if bool_is_None (py_any (map (\<lambda>(e, v). edge_truthy e) edge_weights))
              then Inl (ValueError
                '''graph' cannot contain NA edge weights, all must have weights.'')
            else if bool_lt_zero (py_any (map (\<lambda>(e, v). edge_truthy e) edge_weights))
              then Inl (Warning '''graph' should not contain negative edge weights.'')
            else Inr ())
         else Inr ()))"

definition validate_graph :: "graph_arg \<Rightarrow> exn + unit" where
  "validate_graph graph =
     (case graph of
        GOther v \<Rightarrow>
          if val_in_None_NA_Nan v then Inl (ValueError '''graph' missing'')
          else Inl (ValueError '''graph' must be an NetworkX graph object'')
      | GGraph g \<Rightarrow> validate_graph_graph g)"

section \<open>Inputs used in the examples\<close>

text \<open>\<^verbatim>\<open>sd > 0\<close> on a float.\<close>

definition pyfloat_gt_zero :: "pyfloat \<Rightarrow> bool" where
  "pyfloat_gt_zero f = (case f of Finite r \<Rightarrow> 0 < r | PosInf \<Rightarrow> True | _ \<Rightarrow> False)"

definition fl :: "real \<Rightarrow> pyval" where
  "fl r = PFloat (Finite r)"

text \<open>Rows A, B, C and columns exp1, exp2, where exp1 is constant.\<close>

definition scores_flat :: matrix where
  "scores_flat =
     \<lparr>mat = \<lparr>dtype = ''float64'', ncols = 2,
             cells = [[fl 1, fl 1], [fl 1, fl 2], [fl 1, fl 3]]\<rparr>,
      rows_labels = [Some ''A'', Some ''B'', Some ''C''],
      cols_labels = [Some ''exp1'', Some ''exp2'']\<rparr>"

text \<open>A float matrix and an integer matrix with the same entries, no column constant.\<close>

definition scores_good :: matrix where
  "scores_good =
     \<lparr>mat = \<lparr>dtype = ''float64'', ncols = 2,
             cells = [[fl 1, fl 4], [fl 2, fl 5], [fl 3, fl 7]]\<rparr>,
      rows_labels = [Some ''A'', Some ''B'', Some ''C''],
      cols_labels = [Some ''exp1'', Some ''exp2'']\<rparr>"

definition scores_int64 :: matrix where
  "scores_int64 =
     \<lparr>mat = \<lparr>dtype = ''int64'', ncols = 2,
             cells = [[NpInt 1, NpInt 4], [NpInt 2, NpInt 5], [NpInt 3, NpInt 7]]\<rparr>,
      rows_labels = [Some ''A'', Some ''B'', Some ''C''],
      cols_labels = [Some ''exp1'', Some ''exp2'']\<rparr>"

text \<open>A float matrix whose first cell is the float NaN.\<close>

definition scores_nan :: matrix where
  "scores_nan =
     \<lparr>mat = \<lparr>dtype = ''float64'', ncols = 2,
             cells = [[PFloat NaN, fl 1], [fl 2, fl 2], [fl 3, fl 5]]\<rparr>,
      rows_labels = [Some ''A'', Some ''B'', Some ''C''],
      cols_labels = [Some ''exp1'', Some ''exp2'']\<rparr>"

text \<open>A float matrix with a single row, holding NaN and infinity.\<close>

definition scores_one_row :: matrix where
  "scores_one_row =
     \<lparr>mat = \<lparr>dtype = ''float64'', ncols = 2, cells = [[PFloat NaN, PFloat PosInf]]\<rparr>,
      rows_labels = [Some ''A''],
      cols_labels = [Some ''exp1'', Some ''exp2'']\<rparr>"

text \<open>Arrays of dtype \<^verbatim>\<open>object\<close>: one holding \<^verbatim>\<open>None\<close>, one holding Python floats.\<close>

definition scores_object :: matrix where
  "scores_object =
     \<lparr>mat = \<lparr>dtype = ''object'', ncols = 1, cells = [[PNone], [fl 2]]\<rparr>,
      rows_labels = [Some ''A'', Some ''B''],
      cols_labels = [Some ''exp1'']\<rparr>"

definition kernel_object :: matrix where
  "kernel_object =
     \<lparr>mat = \<lparr>dtype = ''object'', ncols = 2, cells = [[fl 1, fl 0], [fl 0, fl 1]]\<rparr>,
      rows_labels = [Some ''A'', Some ''B''],
      cols_labels = [Some ''A'', Some ''B'']\<rparr>"

definition kernel_3x4 :: matrix where
  "kernel_3x4 =
     \<lparr>mat = \<lparr>dtype = ''float64'', ncols = 4,
             cells = [[fl 1, fl 0, fl 0, fl 0], [fl 0, fl 1, fl 0, fl 0],
                      [fl 0, fl 0, fl 1, fl 0]]\<rparr>,
      rows_labels = [Some ''A'', Some ''B'', Some ''C''],
      cols_labels = [Some ''A'', Some ''B'', Some ''C'', Some ''D'']\<rparr>"

definition kernel_swapped :: matrix where
  "kernel_swapped =
     \<lparr>mat = \<lparr>dtype = ''float64'', ncols = 3,
             cells = [[fl 1, fl 0, fl 0], [fl 0, fl 1, fl 0], [fl 0, fl 0, fl 1]]\<rparr>,
      rows_labels = [Some ''A'', Some ''B'', Some ''C''],
      cols_labels = [Some ''A'', Some ''C'', Some ''B'']\<rparr>"

definition graph_directed :: graph where
  "graph_directed =
     \<lparr>directed = True,
      nodes = [(0, ''a''), (1, ''b''), (2, ''c'')],
      edges = [((0, 1), None), ((1, 2), None)]\<rparr>"

text \<open>An undirected graph where one edge of two has a weight, and one with a negative weight.\<close>

definition graph_partly_weighted :: graph where
  "graph_partly_weighted =
     \<lparr>directed = False,
      nodes = [(0, ''a''), (1, ''b''), (2, ''c'')],
      edges = [((0, 1), Some (fl 1)), ((1, 2), None)]\<rparr>"

definition graph_negative_weight :: graph where
  "graph_negative_weight =
     \<lparr>directed = False,
      nodes = [(0, ''a''), (1, ''b''), (2, ''c'')],
      edges = [((0, 1), Some (fl (- 1))), ((1, 2), Some (fl 2))]\<rparr>"

section \<open>Basic facts\<close>

text \<open>The dtype test holds of no dtype: its first conjunct is \<^verbatim>\<open>not 'float'\<close>.\<close>

lemma dtype_test_False: "dtype_test d = False"
  by (simp add: dtype_test_def str_truthy_def)

lemma for_each_all: "(\<And>x. x \<in> set xs \<Longrightarrow> f x = Inr ()) \<Longrightarrow> for_each f xs = Inr ()"
  by (induction xs) simp_all

lemma for_each_raises: "x \<in> set xs \<Longrightarrow> isl (f x) \<Longrightarrow> isl (for_each f xs)"
  by (induction xs) (auto split: sum.splits)

lemma iter_matrix_mem:
  assumes "(v, cl, rl) \<in> set (iter_matrix m)"
  shows "(\<exists>row \<in> set (cells (mat m)). v \<in> set row) \<and> cl \<in> set (cols_labels m)
         \<and> rl \<in> set (rows_labels m)"
  using assms
  by (auto simp: iter_matrix_def dest: set_zip_leftD set_zip_rightD)

lemma validate_scores_unfold:
  "validate_scores std m =
     (case scores_cells_ok m of
        Inl e \<Rightarrow> Inl e
      | Inr _ \<Rightarrow> for_each check_sd (iter_matrix (std_matrix std m)))"
  by (simp add: validate_scores_def Let_def split: sum.splits)

lemma iter_std_matrix:
  "iter_matrix (std_matrix std m) =
     map (\<lambda>(sd, cl). (PFloat sd, cl, Some ''sd'')) (zip (std (mat m)) (cols_labels m))"
  by (simp add: iter_matrix_def std_matrix_def zip_map1 case_prod_unfold)

text \<open>
  On a float the test \<^verbatim>\<open>sd in ['Nan', None]\<close> of line 50 is false, whatever the float:
  only \<^verbatim>\<open>sd == 0\<close> can raise.
\<close>

lemma check_sd_float:
  "check_sd (PFloat sd, cl, rl) =
     (if sd = Finite 0
        then Inl (ValueError (''Standard deviation in background is 0 in column:'' @ label_str cl))
      else Inr ())"
  by (cases sd) (simp_all add: check_sd_def val_in_Nan_None_def py_eq_zero_def)

lemma check_score_ok:
  "isinstance_float v \<or> isinstance_int v \<Longrightarrow> \<not> label_in_Nan_None cl \<Longrightarrow>
   \<not> label_in_Nan_None rl \<Longrightarrow> check_score (v, cl, rl) = Inr ()"
  by (cases v) (auto simp: check_score_def is_fresh_list_def isinstance_float_def
      isinstance_int_def)

lemma check_score_not_numeric:
  "\<not> isinstance_float v \<Longrightarrow> \<not> isinstance_int v \<Longrightarrow> isl (check_score (v, cl, rl))"
  by (simp add: check_score_def is_fresh_list_def)

lemma validate_K_unfold: "validate_K (KMatrix k) = validate_K_matrix k"
  by (simp add: validate_K_def)

lemma validate_graph_unfold: "validate_graph (GGraph g) = validate_graph_graph g"
  by (simp add: validate_graph_def)

lemma np_unique_length: "(length (np_unique xs) \<noteq> length xs) = (\<not> distinct xs)"
  by (auto simp: np_unique_def distinct_remdups_id dest: length_remdups_eq[THEN iffD1])

lemmas std_defs = fl_def np_std_def std_col_def mean_def upt_rec[of 0] upt_rec[of 1]
  upt_rec[of 2] upt_rec[of "Suc 0"] power2_eq_square

lemmas cells_defs = fl_def scores_cells_ok_def iter_matrix_def check_score_def dtype_test_False
  is_fresh_list_def isinstance_float_def isinstance_int_def label_in_Nan_None_def

lemmas sd_defs = validate_scores_unfold iter_std_matrix check_sd_float

lemmas kernel_defs = validate_K_unfold validate_K_matrix_def dtype_test_False shape0_def
  shape1_def iter_matrix_def check_K_cell_def isinstance_float_def isinstance_int_def
  val_in_Nan_None_def label_in_Nan_None_def np_unique_def fl_def

lemmas graph_defs = validate_graph_unfold validate_graph_graph_def get_label_list_graph_def
  get_edge_attributes_def list_in_None_NA_Nan_def bool_is_None_def bool_lt_zero_def
  py_any_def np_unique_def edge_truthy_def str_truthy_def List.map_filter_def

section \<open>The loop over the standard deviations\<close>

lemma sd_loop_zero:
  "j < length sds \<Longrightarrow> j < length cls \<Longrightarrow> sds ! j = Finite 0 \<Longrightarrow>
   \<exists>i\<le>j. sds ! i = Finite 0 \<and> (\<forall>k<i. sds ! k \<noteq> Finite 0) \<and>
     for_each check_sd (map (\<lambda>(sd, cl). (PFloat sd, cl, rl)) (zip sds cls)) =
       Inl (ValueError (''Standard deviation in background is 0 in column:'' @ label_str (cls ! i)))"
proof (induction sds arbitrary: cls j)
  case Nil
  then show ?case by simp
next
  case (Cons sd sds)
  then obtain cl cls' where cls: "cls = cl # cls'" by (cases cls) auto
  show ?case
  proof (cases "sd = Finite 0")
    case True
    then have "for_each check_sd (map (\<lambda>(sd, cl). (PFloat sd, cl, rl)) (zip (sd # sds) cls)) =
       Inl (ValueError (''Standard deviation in background is 0 in column:'' @ label_str (cls ! 0)))"
      by (simp add: cls check_sd_float)
    with True show ?thesis by (intro exI[of _ 0]) simp
  next
    case False
    with Cons.prems obtain j' where j: "j = Suc j'" by (cases j) auto
    with Cons.prems cls have "j' < length sds" "j' < length cls'" "sds ! j' = Finite 0" by auto
    from Cons.IH[OF this] obtain i where i: "i \<le> j'" "sds ! i = Finite 0"
      "\<forall>k<i. sds ! k \<noteq> Finite 0"
      "for_each check_sd (map (\<lambda>(sd, cl). (PFloat sd, cl, rl)) (zip sds cls')) =
       Inl (ValueError (''Standard deviation in background is 0 in column:'' @ label_str (cls' ! i)))"
      by blast
    have "\<forall>k<Suc i. (sd # sds) ! k \<noteq> Finite 0"
      using False i(3) by (auto simp: less_Suc_eq_0_disj)
    moreover have "for_each check_sd (map (\<lambda>(sd, cl). (PFloat sd, cl, rl)) (zip (sd # sds) cls)) =
       Inl (ValueError (''Standard deviation in background is 0 in column:'' @ label_str (cls ! Suc i)))"
      using False i(4) by (simp add: cls check_sd_float)
    ultimately show ?thesis using i(1,2) j by (intro exI[of _ "Suc i"]) simp
  qed
qed

lemma sd_loop_ok:
  "list_all pyfloat_gt_zero sds \<Longrightarrow>
   for_each check_sd (map (\<lambda>(sd, cl). (PFloat sd, cl, rl)) (zip sds cls)) = Inr ()"
proof (rule for_each_all)
  fix x assume a: "list_all pyfloat_gt_zero sds"
    and "x \<in> set (map (\<lambda>(sd, cl). (PFloat sd, cl, rl)) (zip sds cls))"
  then obtain sd cl where x: "x = (PFloat sd, cl, rl)" and "(sd, cl) \<in> set (zip sds cls)"
    by auto
  then have "sd \<in> set sds" by (auto dest: set_zip_leftD)
  with a have "pyfloat_gt_zero sd" by (simp add: list_all_iff)
  then have "sd \<noteq> Finite 0" by (auto simp: pyfloat_gt_zero_def)
  then show "check_sd x = Inr ()" by (simp add: x check_sd_float)
qed

section \<open>The graph validator\<close>

text \<open>
  C1. The claim: for every directed graph that passes the earlier fatal checks,
  \<^verbatim>\<open>validate_graph\<close> returns without raising any exception and signals an advisory through
  a channel separate from the fatal error path. At the directed graph with the three
  nodes a, b, c the validator does not return: line 76 raises.
\<close>

theorem directed_graph_does_not_return:
  "distinct (get_label_list_graph graph_directed) \<and> directed graph_directed \<and>
   isl (validate_graph (GGraph graph_directed)) \<and>
   validate_graph (GGraph graph_directed) \<noteq> Inr ()"
  by (simp add: graph_directed_def graph_defs)

text \<open>
  C1, as the module has it: for every directed graph whose node names are unique,
  \<^verbatim>\<open>validate_graph\<close> raises an exception of class \<^verbatim>\<open>Warning\<close>, not \<^verbatim>\<open>ValueError\<close>, with
  the message that the graph should be undirected. The signal differs from a silent
  return and from every fatal \<^verbatim>\<open>ValueError\<close>, but it is a raise: the call ends there.
\<close>

theorem directed_graph_raises_Warning:
  assumes "distinct (get_label_list_graph g)" and "directed g"
  shows "validate_graph (GGraph g) =
     Inl (Warning ''graph' should be an undirected NetworkX graph object.'')"
  using assms
  by (simp add: validate_graph_unfold validate_graph_graph_def Let_def np_unique_length
      list_in_None_NA_Nan_def bool_is_None_def)

theorem directed_graph_raises_Warning_witness:
  "distinct (get_label_list_graph graph_directed) \<and> directed graph_directed \<and>
   validate_graph (GGraph graph_directed) =
     Inl (Warning ''graph' should be an undirected NetworkX graph object.'') \<and>
   validate_graph (GGraph (graph_directed\<lparr>directed := False\<rparr>)) = Inr ()"
proof -
  have a: "distinct (get_label_list_graph graph_directed)" "directed graph_directed"
    by (simp_all add: graph_directed_def get_label_list_graph_def)
  have "validate_graph (GGraph (graph_directed\<lparr>directed := False\<rparr>)) = Inr ()"
    by (simp add: graph_directed_def graph_defs)
  with directed_graph_raises_Warning[OF a] a show ?thesis by simp
qed

text \<open>
  Once the name checks and the direction check are passed, the edges have no influence:
  \<^verbatim>\<open>any(edge_weights)\<close> is a bool, so neither \<^verbatim>\<open>is None\<close> nor \<^verbatim>\<open>< 0\<close> holds of it.
\<close>

lemma undirected_graph_accepted:
  assumes "distinct (get_label_list_graph g)" and "\<not> directed g"
  shows "validate_graph (GGraph g) = Inr ()"
  using assms
  by (simp add: validate_graph_unfold validate_graph_graph_def Let_def np_unique_length
      list_in_None_NA_Nan_def bool_is_None_def bool_lt_zero_def)

text \<open>
  C4. The claim: in a graph where some edge carries a weight, \<^verbatim>\<open>validate_graph\<close> raises
  fatally if some edge lacks one, and emits a non-fatal advisory if all edges carry one
  and some weight is negative. The module returns silently in both cases: for the graph
  a - b - c where only the edge a - b has a weight (1.0), and for the same graph with the
  weights -1.0 and 2.0.
\<close>

theorem edge_weights_never_checked:
  "get_edge_attributes graph_partly_weighted = [((0, 1), fl 1)] \<and>
   validate_graph (GGraph graph_partly_weighted) = Inr () \<and>
   get_edge_attributes graph_negative_weight = [((0, 1), fl (- 1)), ((1, 2), fl 2)] \<and>
   validate_graph (GGraph graph_negative_weight) = Inr ()"
  by (simp add: graph_partly_weighted_def graph_negative_weight_def graph_defs)

section \<open>The scores validator\<close>

text \<open>
  A cell that is \<^verbatim>\<open>None\<close> or a string does make the validator raise, in the loop over the
  cells.
\<close>

lemma non_numeric_cell_raises:
  assumes "cols_labels m \<noteq> []" and "rows_labels m \<noteq> []"
    and "(v, cl, rl) \<in> set (iter_matrix m)"
    and "\<not> isinstance_float v" and "\<not> isinstance_int v"
  shows "isl (validate_scores std m)"
proof -
  have "isl (for_each check_score (iter_matrix m))"
    using assms(3) check_score_not_numeric[OF assms(4,5)] by (rule for_each_raises)
  then have "isl (scores_cells_ok m)"
    using assms(1,2) by (simp add: scores_cells_ok_def dtype_test_False)
  then show ?thesis
    by (cases "scores_cells_ok m") (simp_all add: validate_scores_unfold)
qed

text \<open>
  C2. The claim: if any cell is a missing-value sentinel or a not-a-number marker,
  including a floating NaN value, \<^verbatim>\<open>validate_scores\<close> raises before it computes the
  standard deviations. A float matrix whose cell (A, exp1) is the float NaN is accepted:
  the cell is an instance of \<^verbatim>\<open>float\<close>, the deviation of its column is NaN, and a NaN is
  neither \<^verbatim>\<open>in ['Nan', None]\<close> nor \<^verbatim>\<open>== 0\<close>.
\<close>

lemma np_std_nan: "np_std (mat scores_nan) = [NaN, Finite (sqrt (26/9))]"
  by (simp add: scores_nan_def std_defs)

lemma cells_ok_nan: "scores_cells_ok scores_nan = Inr ()"
  by (simp add: scores_nan_def cells_defs)

theorem nan_cell_accepted:
  "hd (hd (cells (mat scores_nan))) = PFloat NaN \<and>
   validate_scores np_std scores_nan = Inr ()"
proof -
  have "cols_labels scores_nan = [Some ''exp1'', Some ''exp2'']"
    and "hd (hd (cells (mat scores_nan))) = PFloat NaN"
    by (simp_all add: scores_nan_def)
  then show ?thesis by (simp add: sd_defs np_std_nan cells_ok_nan)
qed

text \<open>
  C3. The claim: a scores matrix or a kernel matrix whose array has an element type that
  is neither floating-point nor integer is rejected as not numeric before any cell is
  looked at. The dtype test never holds (\<open>dtype_test_False\<close>). An array of dtype
  \<^verbatim>\<open>object\<close> that holds \<^verbatim>\<open>None\<close> is rejected by the test of the cell, with the message of
  that test; a kernel of dtype \<^verbatim>\<open>object\<close> that holds Python floats is accepted.
\<close>

theorem object_dtype_not_rejected:
  "\<not> str_in ''float'' (dtype (mat scores_object)) \<and>
   \<not> str_in ''int'' (dtype (mat scores_object)) \<and>
   validate_scores np_std scores_object = Inl (ValueError ''Scores input cannot contain None.'') \<and>
   \<not> str_in ''float'' (dtype (mat kernel_object)) \<and>
   \<not> str_in ''int'' (dtype (mat kernel_object)) \<and>
   validate_K (KMatrix kernel_object) = Inr ()"
proof -
  have "validate_scores np_std scores_object =
          Inl (ValueError ''Scores input cannot contain None.'')"
    by (simp add: validate_scores_unfold scores_object_def cells_defs)
  moreover have "validate_K (KMatrix kernel_object) = Inr ()"
    by (simp add: kernel_object_def kernel_defs)
  ultimately show ?thesis by (simp add: scores_object_def kernel_object_def)
qed

text \<open>
  C5. For every scores matrix that passes the checks of lines 22 to 45: if the standard
  deviation of some column \<open>j\<close> is exactly zero, \<^verbatim>\<open>validate_scores\<close> raises, and the message
  ends with the label of a column whose deviation is zero: the first such column \<open>i\<close>.
\<close>

theorem zero_sd_column_raises:
  assumes "scores_cells_ok m = Inr ()"
    and "j < length (std (mat m))" and "j < length (cols_labels m)"
    and "std (mat m) ! j = Finite 0"
  shows "\<exists>i\<le>j. std (mat m) ! i = Finite 0 \<and> (\<forall>k<i. std (mat m) ! k \<noteq> Finite 0) \<and>
     validate_scores std m =
       Inl (ValueError (''Standard deviation in background is 0 in column:''
                        @ label_str (cols_labels m ! i)))"
  using sd_loop_zero[OF assms(2,3,4), of "Some ''sd''"] assms(1)
  by (simp add: validate_scores_unfold iter_std_matrix)

lemma np_std_flat: "np_std (mat scores_flat) = [Finite 0, Finite (sqrt (2/3))]"
  by (simp add: scores_flat_def std_defs)

theorem zero_sd_column_raises_witness:
  "scores_cells_ok scores_flat = Inr () \<and> np_std (mat scores_flat) ! 0 = Finite 0 \<and>
   validate_scores np_std scores_flat =
     Inl (ValueError ''Standard deviation in background is 0 in column:exp1'')"
proof -
  have a: "scores_cells_ok scores_flat = Inr ()"
    by (simp add: scores_flat_def cells_defs)
  have b: "np_std (mat scores_flat) ! 0 = Finite 0" by (simp add: np_std_flat)
  have c: "0 < length (np_std (mat scores_flat))" by (simp add: np_std_flat)
  have d: "0 < length (cols_labels scores_flat)" by (simp add: scores_flat_def)
  from zero_sd_column_raises[where m = scores_flat and j = 0 and std = np_std, OF a c d b] a b
  show ?thesis
    by (simp add: scores_flat_def label_str_def)
qed

text \<open>
  A matrix whose cells are all instances of \<^verbatim>\<open>float\<close>, as the cells of a \<^verbatim>\<open>float64\<close> array
  are, with non-empty label sequences, no label that is \<^verbatim>\<open>None\<close> or \<^verbatim>\<open>'Nan'\<close> and every
  column's standard deviation greater than zero, is accepted.
\<close>

lemma float_scores_accepted:
  assumes "cols_labels m \<noteq> []" and "rows_labels m \<noteq> []"
    and "list_all (\<lambda>l. \<not> label_in_Nan_None l) (cols_labels m)"
    and "list_all (\<lambda>l. \<not> label_in_Nan_None l) (rows_labels m)"
    and "list_all (list_all isinstance_float) (cells (mat m))"
    and "list_all pyfloat_gt_zero (std (mat m))"
  shows "validate_scores std m = Inr ()"
proof -
  have "for_each check_score (iter_matrix m) = Inr ()"
  proof (rule for_each_all)
    fix x assume x: "x \<in> set (iter_matrix m)"
    obtain v cl rl where t: "x = (v, cl, rl)" by (cases x) auto
    from iter_matrix_mem[OF x[unfolded t]] assms(3,4,5)
    have "isinstance_float v \<or> isinstance_int v" "\<not> label_in_Nan_None cl"
      "\<not> label_in_Nan_None rl"
      by (auto simp: list_all_iff)
    then show "check_score x = Inr ()" unfolding t by (rule check_score_ok)
  qed
  then have "scores_cells_ok m = Inr ()"
    using assms(1,2) by (simp add: scores_cells_ok_def dtype_test_False)
  then show ?thesis
    using sd_loop_ok[OF assms(6)] by (simp add: validate_scores_unfold iter_std_matrix)
qed

lemma np_std_good: "np_std (mat scores_good) = [Finite (sqrt (2/3)), Finite (sqrt (14/9))]"
  by (simp add: scores_good_def std_defs)

lemma scores_good_accepted: "validate_scores np_std scores_good = Inr ()"
proof -
  have a: "list_all pyfloat_gt_zero (np_std (mat scores_good))"
    by (simp add: np_std_good pyfloat_gt_zero_def)
  show ?thesis
    by (rule float_scores_accepted[where m = scores_good and std = np_std, OF _ _ _ _ _ a])
       (simp_all add: scores_good_def fl_def label_in_Nan_None_def isinstance_float_def)
qed

text \<open>
  C8. The claim: a scores matrix with non-empty label sequences, no missing label, fully
  numeric non-missing values of floating-point or integer type, and every column's
  standard deviation greater than zero is accepted. The integer matrix with the rows
  (1, 4), (2, 5), (3, 7) meets all of it, and its deviations are those of the float
  matrix with the same entries; yet its cells are numpy integers, which are instances of
  neither \<^verbatim>\<open>float\<close> nor \<^verbatim>\<open>int\<close>, and the test of line 38 raises on the first of them.
\<close>

lemma np_std_int64: "np_std (mat scores_int64) = [Finite (sqrt (2/3)), Finite (sqrt (14/9))]"
  by (simp add: scores_int64_def std_defs)

theorem int64_scores_rejected:
  "str_in ''int'' (dtype (mat scores_int64)) \<and>
   rows_labels scores_int64 = [Some ''A'', Some ''B'', Some ''C''] \<and>
   cols_labels scores_int64 = [Some ''exp1'', Some ''exp2''] \<and>
   np_std (mat scores_int64) = [Finite (sqrt (2/3)), Finite (sqrt (14/9))] \<and>
   0 < sqrt (2/3 :: real) \<and> 0 < sqrt (14/9 :: real) \<and>
   validate_scores np_std scores_int64 =
     Inl (ValueError ''The scores in background are not numeric.'')"
proof -
  have "validate_scores np_std scores_int64 =
     Inl (ValueError ''The scores in background are not numeric.'')"
    by (simp add: validate_scores_unfold scores_int64_def cells_defs)
  moreover have "str_in ''int'' (dtype (mat scores_int64))"
    "rows_labels scores_int64 = [Some ''A'', Some ''B'', Some ''C'']"
    "cols_labels scores_int64 = [Some ''exp1'', Some ''exp2'']"
    by (simp_all add: scores_int64_def)
  ultimately show ?thesis by (simp add: np_std_int64)
qed

text \<open>
  A single row of finite numbers has the deviation 0 in every column, and the validator
  raises for the first column.
\<close>

lemma std_col_single:
  assumes "finite_reals (v # vs) \<noteq> None"
  shows "std_col [v] = Finite 0"
proof (cases v)
  case (PFloat f)
  with assms show ?thesis by (cases f) (simp_all add: std_col_def mean_def)
next
  case (NpFloat f)
  with assms show ?thesis by (cases f) (simp_all add: std_col_def mean_def)
qed (use assms in \<open>simp_all add: std_col_def mean_def\<close>)

lemma single_finite_row_raises:
  assumes "scores_cells_ok m = Inr ()"
    and "cells (mat m) = [row]" and "length row = ncols (mat m)" and "row \<noteq> []"
    and "finite_reals row \<noteq> None"
  shows "validate_scores np_std m =
     Inl (ValueError (''Standard deviation in background is 0 in column:''
                      @ label_str (hd (cols_labels m))))"
proof -
  from assms(4) obtain v vs where row: "row = v # vs" by (cases row) auto
  from assms(1) have cl: "cols_labels m \<noteq> []"
    by (auto simp: scores_cells_ok_def split: if_splits)
  have n: "0 < ncols (mat m)" using assms(3,4) by (cases row) auto
  then have len: "0 < length (np_std (mat m))" by (simp add: np_std_def)
  have "np_std (mat m) ! 0 = std_col [v]"
    using n by (simp add: np_std_def assms(2) row)
  also have "\<dots> = Finite 0" using assms(5) unfolding row by (rule std_col_single)
  finally have z: "np_std (mat m) ! 0 = Finite 0" .
  from cl have c: "0 < length (cols_labels m)" by simp
  from sd_loop_zero[OF len c z, of "Some ''sd''"] assms(1) cl
  show ?thesis by (simp add: validate_scores_unfold iter_std_matrix hd_conv_nth)
qed

text \<open>
  C10. The claim: a scores matrix with exactly one row that passes the label, dtype and
  per-cell checks always makes \<^verbatim>\<open>validate_scores\<close> raise, the deviation of a single row
  being zero in every column. The single row (NaN, infinity) passes those checks, its
  deviations are NaN, not zero, and the validator returns: the test of line 50 that
  should catch a NaN deviation is false of every float.
\<close>

lemma np_std_one_row: "np_std (mat scores_one_row) = [NaN, NaN]"
  by (simp add: scores_one_row_def std_defs)

lemma cells_ok_one_row: "scores_cells_ok scores_one_row = Inr ()"
  by (simp add: scores_one_row_def cells_defs)

theorem single_row_accepted:
  "length (cells (mat scores_one_row)) = 1 \<and> scores_cells_ok scores_one_row = Inr () \<and>
   validate_scores np_std scores_one_row = Inr ()"
proof -
  have "cols_labels scores_one_row = [Some ''exp1'', Some ''exp2'']"
    and "length (cells (mat scores_one_row)) = 1"
    by (simp_all add: scores_one_row_def)
  then show ?thesis by (simp add: sd_defs np_std_one_row cells_ok_one_row)
qed

section \<open>The kernel validator\<close>

text \<open>
  C6. For every kernel matrix whose row count differs from its column count,
  \<^verbatim>\<open>validate_K\<close> raises, and the message holds the decimal row count and the decimal
  column count: a 3 by 4 matrix gives "... it has 3 rows and 4 columns.".
\<close>

theorem non_square_kernel_message:
  assumes "shape0 (mat k) \<noteq> shape1 (mat k)"
  shows "validate_K (KMatrix k) =
     Inl (ValueError ('''k' must be a square matrix, but it has '' @ str_nat (shape0 (mat k))
        @ '' rows and '' @ str_nat (shape1 (mat k)) @ '' columns.''))"
  using assms by (simp add: validate_K_unfold validate_K_matrix_def dtype_test_False)

theorem non_square_kernel_message_witness:
  "shape0 (mat kernel_3x4) = 3 \<and> shape1 (mat kernel_3x4) = 4 \<and>
   validate_K (KMatrix kernel_3x4) =
     Inl (ValueError '''k' must be a square matrix, but it has 3 rows and 4 columns.'')"
proof -
  have s: "shape0 (mat kernel_3x4) = 3" "shape1 (mat kernel_3x4) = 4"
    by (simp_all add: kernel_3x4_def shape0_def shape1_def)
  then have "shape0 (mat kernel_3x4) \<noteq> shape1 (mat kernel_3x4)" by simp
  from non_square_kernel_message[OF this] s show ?thesis
    by (simp add: str_nat.simps)
qed

text \<open>
  C7. For every kernel matrix with non-empty row and column label sequences that differ
  as sequences, \<^verbatim>\<open>validate_K\<close> raises a \<^verbatim>\<open>ValueError\<close>; when the array is square it is the
  one of line 109. Rows A, B, C against columns A, C, B is such a kernel.
\<close>

theorem kernel_label_mismatch_raises:
  assumes "rows_labels k \<noteq> []" and "cols_labels k \<noteq> []"
    and "rows_labels k \<noteq> cols_labels k"
  shows "(\<exists>msg. validate_K (KMatrix k) = Inl (ValueError msg)) \<and>
     (shape0 (mat k) = shape1 (mat k) \<longrightarrow>
      validate_K (KMatrix k) = Inl (ValueError '''k' rownames and colnames must coincide.''))"
  using assms by (simp add: validate_K_unfold validate_K_matrix_def dtype_test_False Let_def)

theorem kernel_label_mismatch_raises_witness:
  "set (rows_labels kernel_swapped) = set (cols_labels kernel_swapped) \<and>
   rows_labels kernel_swapped \<noteq> cols_labels kernel_swapped \<and>
   validate_K (KMatrix kernel_swapped) =
     Inl (ValueError '''k' rownames and colnames must coincide.'')"
proof -
  have a: "rows_labels kernel_swapped \<noteq> []" "cols_labels kernel_swapped \<noteq> []"
    "rows_labels kernel_swapped \<noteq> cols_labels kernel_swapped"
    and b: "shape0 (mat kernel_swapped) = shape1 (mat kernel_swapped)"
    and c: "set (rows_labels kernel_swapped) = set (cols_labels kernel_swapped)"
    by (auto simp: kernel_swapped_def shape0_def shape1_def)
  from kernel_label_mismatch_raises[OF a] a(3) b c show ?thesis by simp
qed

end
